theory Spec2Isabelle
  imports Complex_Main
begin

section \<open>The GKE utility routines of caliban (caliban/gke/utils.py)\<close>

text \<open>
  The module is a collection of small adapters: an exception trap, a validator of GPU
  requests, parsers of accelerator strings, a translation of quota records into resource
  limits, a polling loop and a yes/no prompt. Each function is embedded as a HOL function
  that computes the result the Python function returns, with exceptions, log messages,
  remote queries, sleeps and console traffic made explicit.
\<close>

subsection \<open>Exceptions, effects and runs\<close>

text \<open>
  The exceptions the code can meet. Python separates the classes below \<open>Exception\<close>
  (errors) from those that derive from \<open>BaseException\<close> only: \<open>KeyboardInterrupt\<close>,
  \<open>SystemExit\<close> and \<open>GeneratorExit\<close>. A clause \<open>except Exception\<close> catches the former
  and lets the latter pass.
\<close>

datatype exn =
    KeyError | TypeError | ValueError | AttributeError | EOFError
  | OtherException string
  | KeyboardInterrupt | SystemExit | GeneratorExit
  | OtherBaseException string

fun is_Exception :: "exn \<Rightarrow> bool" where
  "is_Exception KeyboardInterrupt = False"
| "is_Exception SystemExit = False"
| "is_Exception GeneratorExit = False"
| "is_Exception (OtherBaseException _) = False"
| "is_Exception _ = True"

text \<open>
  What a call does besides returning: it writes to the log, queries the operations API,
  sleeps, prompts on the console or prints. The text of a log message is not modelled.
\<close>

datatype event =
    LogError
  | LogException exn
  | Query
  | Sleep int
  | Prompt string
  | Print string

text \<open>
  A finished call: the events in the order they happened, and either the exception that
  left the function (\<open>Inl\<close>) or the value returned (\<open>Inr\<close>).
\<close>

type_synonym 'a run = "event list \<times> (exn + 'a)"

subsection \<open>trap\<close>

text \<open>
  \<^verbatim>\<open>
  def trap(error_value, silent=True):
    def check(fn):
      def wrapper(*args, **kwargs):
        try:
          response = fn(*args, **kwargs)
        except Exception as e:
          if not silent:
            logging.exception(...)
          return error_value
        return response
      return wrapper
    return check
  \<close>
\<close>

definition wrapper :: "'b \<Rightarrow> bool \<Rightarrow> ('a \<Rightarrow> 'b run) \<Rightarrow> 'a \<Rightarrow> 'b run" where
  "wrapper error_value silent fn args =
     (case fn args of
        (evs, Inl e) \<Rightarrow>
          if is_Exception e
          then (evs @ (if \<not> silent then [LogException e] else []), Inr error_value)
          else (evs, Inl e)
      | (evs, Inr response) \<Rightarrow> (evs, Inr response))"

definition trap :: "'b \<Rightarrow> bool \<Rightarrow> ('a \<Rightarrow> 'b run) \<Rightarrow> 'a \<Rightarrow> 'b run" where
  "trap error_value silent = (\<lambda>fn. wrapper error_value silent fn)"

text \<open>A function without effects, as a function whose runs have no events.\<close>

definition pure_fn :: "('a \<Rightarrow> exn + 'b) \<Rightarrow> 'a \<Rightarrow> 'b run" where
  "pure_fn f x = ([], f x)"

subsection \<open>Accelerator types\<close>

text \<open>
  The module caliban.cloud.types is not under src/. The spec describes its types:
  a GPUSpec and a TPUSpec are pairs of an accelerator kind and a count, and the TPU
  versions are v2 and v3. The members of the enumeration \<open>GPU\<close> are not listed by the
  spec: the kind of a GPU is a type parameter, and the lookup \<open>GPU[name]\<close> of a member
  by its name is a parameter of the functions that use it.
\<close>

text \<open>
  Modelled from the spec: the type \<open>GPUSpec\<close> of caliban.cloud.types, a GPU kind and a
  count, read in the source as \<open>gpu_spec.gpu\<close> and \<open>gpu_spec.count\<close>.
\<close>

datatype 'gpu GPUSpec = GPUSpec (gpu: 'gpu) (count: int)

text \<open>
  Modelled from the spec: the enumeration \<open>TPU\<close> of caliban.cloud.types, the TPU
  versions v2 and v3.
\<close>

datatype TPU = V2 | V3

text \<open>
  Modelled from the spec: the type \<open>TPUSpec\<close> of caliban.cloud.types, a TPU version
  and a count.
\<close>

datatype TPUSpec = TPUSpec (tpu: TPU) (tpu_count: int)

text \<open>
  Modelled from the spec: the lookup \<open>TPU[name]\<close> of a member of the enumeration by
  its name, which raises KeyError where no member has the name.
\<close>

fun TPU_by_name :: "string \<Rightarrow> exn + TPU" where
  "TPU_by_name n =
     (if n = ''V2'' then Inr V2 else if n = ''V3'' then Inr V3 else Inl KeyError)"

subsection \<open>validate\_gpu\_spec\_against\_limits\<close>

text \<open>
  \<^verbatim>\<open>
  if gpu_spec.gpu not in gpu_limits:
    logging.error(...)
    return False
  if gpu_spec.count > gpu_limits[gpu_spec.gpu]:
    logging.error(...)
    return False
  return True
  \<close>
  The limits are a dictionary from GPU kinds to integers. The label \<open>limit_type\<close> only
  appears in the log messages.
\<close>

definition validate_gpu_spec_against_limits ::
  "'gpu GPUSpec \<Rightarrow> ('gpu \<rightharpoonup> int) \<Rightarrow> string \<Rightarrow> event list \<times> bool" where
  "validate_gpu_spec_against_limits gpu_spec gpu_limits limit_type =
     (case gpu_limits (gpu gpu_spec) of
        None \<Rightarrow> ([LogError], False)
      | Some maximum \<Rightarrow>
          if count gpu_spec > maximum then ([LogError], False) else ([], True))"

subsection \<open>Strings and the regular expressions of the module\<close>

text \<open>
  Strings are lists of characters. The case conversions \<open>str.upper\<close> and \<open>str.lower\<close>
  are only ever applied to text that a pattern has restricted to ASCII letters and digits,
  or compared with the ASCII strings \<open>y\<close> and \<open>n\<close>; they are modelled on the ASCII
  letters and leave every other character as it is.
\<close>

definition newline :: char where
  "newline = CHR 0x0A"

definition is_digit :: "char \<Rightarrow> bool" where
  "is_digit c = (48 \<le> (of_char c :: nat) \<and> (of_char c :: nat) \<le> 57)"

definition is_lower :: "char \<Rightarrow> bool" where
  "is_lower c = (97 \<le> (of_char c :: nat) \<and> (of_char c :: nat) \<le> 122)"

definition is_upper :: "char \<Rightarrow> bool" where
  "is_upper c = (65 \<le> (of_char c :: nat) \<and> (of_char c :: nat) \<le> 90)"

definition upper_char :: "char \<Rightarrow> char" where
  "upper_char c = (if is_lower c then char_of ((of_char c :: nat) - 32) else c)"

definition lower_char :: "char \<Rightarrow> char" where
  "lower_char c = (if is_upper c then char_of ((of_char c :: nat) + 32) else c)"

definition upper :: "string \<Rightarrow> string" where
  "upper s = map upper_char s"

definition lower :: "string \<Rightarrow> string" where
  "lower s = map lower_char s"

text \<open>The literal text \<open>p\<close> at the start of \<open>s\<close>: what follows it, if it is there.\<close>

fun strip_prefix :: "string \<Rightarrow> string \<Rightarrow> string option" where
  "strip_prefix [] s = Some s"
| "strip_prefix (p # ps) [] = None"
| "strip_prefix (p # ps) (c # cs) = (if p = c then strip_prefix ps cs else None)"

text \<open>
  The anchor \<open>$\<close> of Python's \<open>re\<close>, without the MULTILINE flag: it matches at the end of
  the string and also just before a newline that is the last character of the string.
\<close>

definition at_end :: "string \<Rightarrow> bool" where
  "at_end s = (s = [] \<or> s = [newline])"

text \<open>
  A character class \<open>[...]+\<close> that is followed by text it cannot match takes the longest
  run of its characters: a shorter run would leave a character of the class where the
  rest of the pattern wants another one.

  \<^verbatim>\<open>tpu_re = re.compile('^(?P<tpu>(v2|v3))-(?P<count>[0-9]+)$')\<close>
  The result of \<open>tpu_re.match\<close>: the groups \<open>tpu\<close> and \<open>count\<close>, or no match.
\<close>

definition tpu_re_match :: "string \<Rightarrow> (string \<times> string) option" where
  "tpu_re_match s =
     (case (case strip_prefix ''v2'' s of
              Some r \<Rightarrow> Some (''v2'', r)
            | None \<Rightarrow> (case strip_prefix ''v3'' s of
                         Some r \<Rightarrow> Some (''v3'', r)
                       | None \<Rightarrow> None)) of
        None \<Rightarrow> None
      | Some (tpu_group, r) \<Rightarrow>
          (case strip_prefix ''-'' r of
             None \<Rightarrow> None
           | Some r' \<Rightarrow>
               if takeWhile is_digit r' \<noteq> [] \<and> at_end (dropWhile is_digit r')
               then Some (tpu_group, takeWhile is_digit r')
               else None))"

text \<open>
  \<^verbatim>\<open>gpu_re = re.compile('^nvidia-tesla-(?P<type>[a-z0-9]+)$')\<close> of \<open>gke_gpu_to_gpu\<close>:
  the group \<open>type\<close>, or no match.
\<close>

definition gke_gpu_re_match :: "string \<Rightarrow> string option" where
  "gke_gpu_re_match s =
     (case strip_prefix ''nvidia-tesla-'' s of
        None \<Rightarrow> None
      | Some r \<Rightarrow>
          if takeWhile (\<lambda>c. is_lower c \<or> is_digit c) r \<noteq> []
             \<and> at_end (dropWhile (\<lambda>c. is_lower c \<or> is_digit c) r)
          then Some (takeWhile (\<lambda>c. is_lower c \<or> is_digit c) r)
          else None)"

text \<open>
  \<^verbatim>\<open>gpu_re = re.compile('^NVIDIA_(?P<gpu>[A-Z0-9]+)_GPUS$')\<close> of
  \<open>resource_limits_from_quotas\<close>: the group \<open>gpu\<close>, or no match.
\<close>

definition quota_gpu_re_match :: "string \<Rightarrow> string option" where
  "quota_gpu_re_match s =
     (case strip_prefix ''NVIDIA_'' s of
        None \<Rightarrow> None
      | Some r \<Rightarrow>
          if takeWhile (\<lambda>c. is_upper c \<or> is_digit c) r = [] then None
          else (case strip_prefix ''_GPUS'' (dropWhile (\<lambda>c. is_upper c \<or> is_digit c) r) of
                  None \<Rightarrow> None
                | Some rest \<Rightarrow>
                    if at_end rest then Some (takeWhile (\<lambda>c. is_upper c \<or> is_digit c) r)
                    else None))"

subsection \<open>Integers and their decimal text\<close>

text \<open>
  \<open>int(s)\<close> on a non-empty string of ASCII digits, which is all that \<open>gke_tpu_to_tpuspec\<close>
  passes to it: Python's integers are unbounded, and so is the value. (An interpreter
  configured with a limit on the number of digits is not modelled.)
\<close>

definition digit_value :: "char \<Rightarrow> nat" where
  "digit_value c = (of_char c :: nat) - 48"

definition decimal :: "string \<Rightarrow> nat" where
  "decimal s = foldl (\<lambda>a c. 10 * a + digit_value c) 0 s"

text \<open>\<open>str(n)\<close> for an integer: its decimal digits, after a minus sign when negative.\<close>

fun str_nat :: "nat \<Rightarrow> string" where
  "str_nat n =
     (if n < 10 then [char_of (48 + n)]
      else str_nat (n div 10) @ [char_of (48 + n mod 10)])"

definition str_int :: "int \<Rightarrow> string" where
  "str_int i = (if i < 0 then CHR ''-'' # str_nat (nat (- i)) else str_nat (nat i))"

subsection \<open>gke\_tpu\_to\_tpuspec and gke\_gpu\_to\_gpu\<close>

text \<open>
  \<^verbatim>\<open>
  @trap(None)
  def gke_tpu_to_tpuspec(tpu):
    tpu_re = re.compile('^(?P<tpu>(v2|v3))-(?P<count>[0-9]+)$')
    gd = tpu_re.match(tpu).groupdict()
    return TPUSpec(TPU[gd['tpu'].upper()], int(gd['count']))
  \<close>
  Without a match, \<open>tpu_re.match\<close> is None and \<open>.groupdict()\<close> raises AttributeError.
\<close>

definition gke_tpu_to_tpuspec_body :: "string \<Rightarrow> exn + TPUSpec option" where
  "gke_tpu_to_tpuspec_body tpu_str =
     (case tpu_re_match tpu_str of
        None \<Rightarrow> Inl AttributeError
      | Some (tpu_group, count_group) \<Rightarrow>
          (case TPU_by_name (upper tpu_group) of
             Inl e \<Rightarrow> Inl e
           | Inr t \<Rightarrow> Inr (Some (TPUSpec t (int (decimal count_group))))))"

definition gke_tpu_to_tpuspec :: "string \<Rightarrow> TPUSpec option run" where
  "gke_tpu_to_tpuspec = trap None True (pure_fn gke_tpu_to_tpuspec_body)"

text \<open>
  \<^verbatim>\<open>
  @trap(None)
  def gke_gpu_to_gpu(gpu):
    gpu_re = re.compile('^nvidia-tesla-(?P<type>[a-z0-9]+)$')
    gd = gpu_re.match(gpu).groupdict()
    return GPU[gd['type'].upper()]
  \<close>
  \<open>GPU_by_name\<close> is the enumeration: the member of a name, where there is one
  (\<open>GPU[name]\<close> raises KeyError where there is none).
\<close>

definition gke_gpu_to_gpu_body :: "(string \<rightharpoonup> 'gpu) \<Rightarrow> string \<Rightarrow> exn + 'gpu option" where
  "gke_gpu_to_gpu_body GPU_by_name gpu_str =
     (case gke_gpu_re_match gpu_str of
        None \<Rightarrow> Inl AttributeError
      | Some type_group \<Rightarrow>
          (case GPU_by_name (upper type_group) of
             None \<Rightarrow> Inl KeyError
           | Some g \<Rightarrow> Inr (Some g)))"

definition gke_gpu_to_gpu :: "(string \<rightharpoonup> 'gpu) \<Rightarrow> string \<Rightarrow> 'gpu option run" where
  "gke_gpu_to_gpu GPU_by_name = trap None True (pure_fn (gke_gpu_to_gpu_body GPU_by_name))"

text \<open>
  A sample enumeration, to run the functions on concrete strings: the GPU models
  \<open>K80\<close> and \<open>V100\<close>.
\<close>

datatype sample_GPU = K80 | V100

definition sample_GPU_by_name :: "string \<rightharpoonup> sample_GPU" where
  "sample_GPU_by_name = [''K80'' \<mapsto> K80, ''V100'' \<mapsto> V100]"

subsection \<open>Python values and dictionaries\<close>

text \<open>
  A Python float. A finite float is modelled by the rational number it stands for (every
  finite double is one); the zero with a minus sign, the two infinities and NaN are
  values of their own. The decoder of a JSON response gives a float for a number written
  with a fraction or an exponent, and for the tokens \<open>-0.0\<close>, \<open>Infinity\<close> and \<open>NaN\<close>.
\<close>

datatype pyfloat = Finite rat | NegZero | PosInf | NegInf | NaN

text \<open>
  The values found in the dictionaries the module reads and builds: integers, floats and
  strings. (null, booleans, lists and objects are not quota limits or statuses and are
  outside this model.) A dictionary with string keys is a map.
\<close>

datatype pyval = PyInt int | PyFloat pyfloat | PyStr string

type_synonym pydict = "string \<rightharpoonup> pyval"

text \<open>
  \<open>str(x)\<close> for a float. A float that is a whole number below \<open>10^16\<close> in size is
  written as that integer followed by \<open>.0\<close>. For every other finite float Python writes
  the shortest decimal text that reads back as the same double; that text is left to the
  parameter \<open>float_repr\<close>.
\<close>

fun str_float :: "(rat \<Rightarrow> string) \<Rightarrow> pyfloat \<Rightarrow> string" where
  "str_float float_repr (Finite q) =
     (if of_int \<lfloor>q\<rfloor> = q \<and> \<bar>q\<bar> < 10 ^ 16 then str_int \<lfloor>q\<rfloor> @ ''.0'' else float_repr q)"
| "str_float float_repr NegZero = ''-0.0''"
| "str_float float_repr PosInf = ''inf''"
| "str_float float_repr NegInf = ''-inf''"
| "str_float float_repr NaN = ''nan''"

text \<open>\<open>str(v)\<close>: the decimal text of an integer, the text of a float, a string as it is.\<close>

fun py_str :: "(rat \<Rightarrow> string) \<Rightarrow> pyval \<Rightarrow> string" where
  "py_str float_repr (PyInt n) = str_int n"
| "py_str float_repr (PyFloat x) = str_float float_repr x"
| "py_str float_repr (PyStr s) = s"

text \<open>
  \<open>int(x)\<close> for a float: the fraction is dropped (rounding is toward zero); an infinity
  raises OverflowError and NaN raises ValueError.
\<close>

fun int_float :: "pyfloat \<Rightarrow> exn + int" where
  "int_float (Finite q) = Inr (if q < 0 then \<lceil>q\<rceil> else \<lfloor>q\<rfloor>)"
| "int_float NegZero = Inr 0"
| "int_float PosInf = Inl (OtherException ''OverflowError'')"
| "int_float NegInf = Inl (OtherException ''OverflowError'')"
| "int_float NaN = Inl ValueError"

text \<open>
  \<open>int(v)\<close>: an integer as it is, a float without its fraction. A string of one or more
  ASCII digits is the number the digits write. Which other strings \<open>int\<close> accepts (a
  sign, blanks around, underscores between digits) and what it makes of them is left to
  the parameter \<open>int_of_str\<close>; on all the rest it raises ValueError.
\<close>

fun py_int :: "(string \<rightharpoonup> int) \<Rightarrow> pyval \<Rightarrow> exn + int" where
  "py_int int_of_str (PyInt n) = Inr n"
| "py_int int_of_str (PyFloat x) = int_float x"
| "py_int int_of_str (PyStr s) =
     (if s \<noteq> [] \<and> list_all is_digit s then Inr (int (decimal s))
      else (case int_of_str s of None \<Rightarrow> Inl ValueError | Some n \<Rightarrow> Inr n))"

subsection \<open>resource\_limits\_from\_quotas\<close>

text \<open>
  \<^verbatim>\<open>
  @trap(None)
  def resource_limits_from_quotas(quotas):
    limits = []
    gpu_re = re.compile('^NVIDIA_(?P<gpu>[A-Z0-9]+)_GPUS$')
    for q in quotas:
      metric = q['metric']
      limit = q['limit']
      if metric == 'CPUS':
        limits.append({'resourceType': 'cpu', 'maximum': str(limit)})
        limits.append({'resourceType': 'memory',
                       'maximum': str(int(limit) * k.MAX_GB_PER_CPU)})
        continue
      gpu_match = gpu_re.match(metric)
      if gpu_match is None:
        continue
      gd = gpu_match.groupdict()
      gpu_type = gd['gpu']
      limits.append({'resourceType': f'nvidia-tesla-{gpu_type.lower()}',
                     'maximum': str(limit)})
    return limits
  \<close>
  The constant \<open>MAX_GB_PER_CPU\<close> of caliban.gke.constants is not under src/: it is a
  parameter, an integer. A missing key raises KeyError, and \<open>gpu_re.match\<close> on a metric
  that is not a string raises TypeError.
\<close>

fun quota_loop ::
  "int \<Rightarrow> (string \<rightharpoonup> int) \<Rightarrow> (rat \<Rightarrow> string) \<Rightarrow> pydict list \<Rightarrow> pydict list
     \<Rightarrow> exn + pydict list" where
  "quota_loop MAX_GB_PER_CPU int_of_str float_repr [] limits = Inr limits"
| "quota_loop MAX_GB_PER_CPU int_of_str float_repr (q # quotas) limits =
     (case q ''metric'' of
        None \<Rightarrow> Inl KeyError
      | Some metric \<Rightarrow>
     (case q ''limit'' of
        None \<Rightarrow> Inl KeyError
      | Some limit \<Rightarrow>
          if metric = PyStr ''CPUS''
          then (case py_int int_of_str limit of
                  Inl e \<Rightarrow> Inl e
                | Inr n \<Rightarrow>
                    quota_loop MAX_GB_PER_CPU int_of_str float_repr quotas
                      (limits @
                       [[''resourceType'' \<mapsto> PyStr ''cpu'',
                         ''maximum'' \<mapsto> PyStr (py_str float_repr limit)],
                        [''resourceType'' \<mapsto> PyStr ''memory'',
                         ''maximum'' \<mapsto> PyStr (str_int (n * MAX_GB_PER_CPU))]]))
          else (case metric of
                  PyInt _ \<Rightarrow> Inl TypeError
                | PyFloat _ \<Rightarrow> Inl TypeError
                | PyStr m \<Rightarrow>
                    (case quota_gpu_re_match m of
                       None \<Rightarrow> quota_loop MAX_GB_PER_CPU int_of_str float_repr quotas limits
                     | Some gpu_type \<Rightarrow>
                         quota_loop MAX_GB_PER_CPU int_of_str float_repr quotas
                           (limits @
                            [[''resourceType'' \<mapsto> PyStr (''nvidia-tesla-'' @ lower gpu_type),
                              ''maximum'' \<mapsto> PyStr (py_str float_repr limit)]])))))"

definition resource_limits_from_quotas_body ::
  "int \<Rightarrow> (string \<rightharpoonup> int) \<Rightarrow> (rat \<Rightarrow> string) \<Rightarrow> pydict list \<Rightarrow> exn + pydict list option"
where
  "resource_limits_from_quotas_body MAX_GB_PER_CPU int_of_str float_repr quotas =
     (case quota_loop MAX_GB_PER_CPU int_of_str float_repr quotas [] of
        Inl e \<Rightarrow> Inl e
      | Inr limits \<Rightarrow> Inr (Some limits))"

definition resource_limits_from_quotas ::
  "int \<Rightarrow> (string \<rightharpoonup> int) \<Rightarrow> (rat \<Rightarrow> string) \<Rightarrow> pydict list \<Rightarrow> pydict list option run"
where
  "resource_limits_from_quotas MAX_GB_PER_CPU int_of_str float_repr =
     trap None True
       (pure_fn (resource_limits_from_quotas_body MAX_GB_PER_CPU int_of_str float_repr))"

subsection \<open>The quota translation in the words of the spec\<close>

text \<open>
  A resource limit record: a resource type label and a maximum, both strings, and no
  other field.
\<close>

definition limit_record :: "string \<Rightarrow> string \<Rightarrow> pydict" where
  "limit_record label maximum =
     (\<lambda>key. if key = ''resourceType'' then Some (PyStr label)
            else if key = ''maximum'' then Some (PyStr maximum)
            else None)"

text \<open>The text \<open>p\<close> at the end of \<open>s\<close>: what comes before it, if it is there.\<close>

definition strip_suffix :: "string \<Rightarrow> string \<Rightarrow> string option" where
  "strip_suffix p s =
     (if length p \<le> length s \<and> drop (length s - length p) s = p
      then Some (take (length s - length p) s) else None)"

text \<open>
  A metric of the form \<open>NVIDIA_<MODEL>_GPUS\<close>, where the model is one or more
  upper-case letters and digits: the model, if the metric is of that form.
\<close>

definition nvidia_model :: "string \<Rightarrow> string option" where
  "nvidia_model metric =
     (case strip_prefix ''NVIDIA_'' metric of
        None \<Rightarrow> None
      | Some r \<Rightarrow>
          (case strip_suffix ''_GPUS'' r of
             None \<Rightarrow> None
           | Some model \<Rightarrow>
               if model \<noteq> [] \<and> list_all (\<lambda>c. is_upper c \<or> is_digit c) model
               then Some model else None))"

text \<open>
  The limit records one quota stands for, the quota being given by its metric and its
  limit: for \<open>CPUS\<close> the record \<open>cpu\<close> with the text of the limit, then the record
  \<open>memory\<close> with the text of the whole number \<open>int(limit)\<close> times the GB-per-CPU
  constant; for \<open>NVIDIA_<MODEL>_GPUS\<close> one record \<open>nvidia-tesla-<model in lower case>\<close>
  with the text of the limit; for any other metric nothing.
\<close>

definition limits_of_quota ::
  "int \<Rightarrow> (string \<rightharpoonup> int) \<Rightarrow> (rat \<Rightarrow> string) \<Rightarrow> string \<times> pyval \<Rightarrow> pydict list" where
  "limits_of_quota GB_per_CPU int_of_str float_repr quota =
     (case quota of (metric, limit) \<Rightarrow>
        if metric = ''CPUS''
        then (case py_int int_of_str limit of
                Inr n \<Rightarrow> [limit_record ''cpu'' (py_str float_repr limit),
                          limit_record ''memory'' (str_int (n * GB_per_CPU))]
              | Inl e \<Rightarrow> [])
        else (case nvidia_model metric of
                Some model \<Rightarrow>
                  [limit_record (''nvidia-tesla-'' @ lower model) (py_str float_repr limit)]
              | None \<Rightarrow> []))"

text \<open>A dictionary \<open>q\<close> holds the quota \<open>(metric, limit)\<close>, the metric being a string.\<close>

definition is_quota :: "pydict \<Rightarrow> string \<times> pyval \<Rightarrow> bool" where
  "is_quota q quota = (q ''metric'' = Some (PyStr (fst quota)) \<and> q ''limit'' = Some (snd quota))"

text \<open>The limit of the quota is one that \<open>int\<close> accepts.\<close>

definition int_accepts :: "(string \<rightharpoonup> int) \<Rightarrow> pyval \<Rightarrow> bool" where
  "int_accepts int_of_str limit =
     (case py_int int_of_str limit of Inr n \<Rightarrow> True | Inl e \<Rightarrow> False)"

text \<open>A metric of the form \<open>NVIDIA_<MODEL>_GPUS\<close> followed by one newline.\<close>

definition newline_after_metric :: "string \<Rightarrow> bool" where
  "newline_after_metric metric =
     (metric \<noteq> [] \<and> last metric = newline \<and> nvidia_model (butlast metric) \<noteq> None)"

text \<open>What a result shows of the records it returns: the two fields of each.\<close>

definition shown :: "pydict list option run \<Rightarrow> (pyval option \<times> pyval option) list option" where
  "shown r =
     (case snd r of
        Inr (Some limits) \<Rightarrow> Some (map (\<lambda>d. (d ''resourceType'', d ''maximum'')) limits)
      | _ \<Rightarrow> None)"


subsection \<open>wait\_for\_operation\<close>

text \<open>
  Modelled from the spec: the enumeration \<open>OpStatus\<close> of caliban.gke.types, which is not
  under src/, with the states the spec names. \<open>x.name\<close> is the name of a member.
\<close>

datatype OpStatus = PENDING | RUNNING | DONE | ABORTING

text \<open>
  Modelled from the spec: \<open>x.name\<close> for a member \<open>x\<close> of \<open>OpStatus\<close>, the name the
  operations API uses for the state.
\<close>

fun OpStatus_name :: "OpStatus \<Rightarrow> string" where
  "OpStatus_name PENDING = ''PENDING''"
| "OpStatus_name RUNNING = ''RUNNING''"
| "OpStatus_name DONE = ''DONE''"
| "OpStatus_name ABORTING = ''ABORTING''"

text \<open>
  \<^verbatim>\<open>
  def _wait():
    while True:
      rsp = cluster_api.projects().locations().operations().get(name=name).execute()
      if rsp['status'] in condition_strings:
        return rsp
      sleep(sleep_sec)
    return None
  \<close>
  The operations API is the sequence of its answers: \<open>cluster_api i\<close> is what the query
  number \<open>i\<close> gives, a response or an exception. \<open>time.sleep\<close> raises ValueError on a
  negative length. The loop has no bound: where no answer ends it, the function does not
  return, which is the value \<open>None\<close> of the outer option type.
\<close>

partial_function (option) wait_loop ::
  "(nat \<Rightarrow> exn + pydict) \<Rightarrow> string list \<Rightarrow> int \<Rightarrow> nat \<Rightarrow> event list \<Rightarrow> pydict run option"
where
  "wait_loop cluster_api condition_strings sleep_sec i evs =
     (case cluster_api i of
        Inl e \<Rightarrow> Some (evs @ [Query], Inl e)
      | Inr rsp \<Rightarrow>
          (case rsp ''status'' of
             None \<Rightarrow> Some (evs @ [Query], Inl KeyError)
           | Some status \<Rightarrow>
               if status \<in> PyStr ` set condition_strings
               then Some (evs @ [Query], Inr rsp)
               else if sleep_sec < 0 then Some (evs @ [Query], Inl ValueError)
               else wait_loop cluster_api condition_strings sleep_sec (Suc i)
                      (evs @ [Query, Sleep sleep_sec])))"

text \<open>
  \<^verbatim>\<open>
  @trap(None)
  def wait_for_operation(cluster_api, name, conditions=[OpStatus.DONE, OpStatus.ABORTING],
                         sleep_sec=1, message='', spinner=True):
    if len(conditions) == 0:
      return None
    condition_strings = [x.name for x in conditions]
    def _wait(): ...
    if spinner:
      with yaspin(Spinners.line, text=message) as spinner:
        return _wait()
    return _wait()
  \<close>
  The spinner only draws on the terminal; both branches run the same loop.
\<close>

definition some_response :: "pydict run \<Rightarrow> pydict option run" where
  "some_response r =
     (case r of (evs, Inl e) \<Rightarrow> (evs, Inl e) | (evs, Inr rsp) \<Rightarrow> (evs, Inr (Some rsp)))"

definition wait_for_operation_body ::
  "(nat \<Rightarrow> exn + pydict) \<Rightarrow> string \<Rightarrow> OpStatus list \<Rightarrow> int \<Rightarrow> string \<Rightarrow> bool
     \<Rightarrow> pydict option run option" where
  "wait_for_operation_body cluster_api name conditions sleep_sec message spinner =
     (if length conditions = 0 then Some ([], Inr None)
      else let condition_strings = map OpStatus_name conditions
           in if spinner
              then map_option some_response
                     (wait_loop cluster_api condition_strings sleep_sec 0 [])
              else map_option some_response
                     (wait_loop cluster_api condition_strings sleep_sec 0 []))"

text \<open>The decorator, applied to a call that returns; a call that does not return stays so.\<close>

definition wait_for_operation ::
  "(nat \<Rightarrow> exn + pydict) \<Rightarrow> string \<Rightarrow> OpStatus list \<Rightarrow> int \<Rightarrow> string \<Rightarrow> bool
     \<Rightarrow> pydict option run option" where
  "wait_for_operation cluster_api name conditions sleep_sec message spinner =
     map_option (\<lambda>r. trap None True (\<lambda>_. r) ())
       (wait_for_operation_body cluster_api name conditions sleep_sec message spinner)"

text \<open>An API that gives the responses of a list in turn, and fails once they are used up.\<close>

definition responses :: "pydict list \<Rightarrow> nat \<Rightarrow> exn + pydict" where
  "responses rsps i =
     (if i < length rsps then Inr (rsps ! i) else Inl (OtherException ''StopIteration''))"

text \<open>A response that holds the status \<open>s\<close> and nothing else.\<close>

definition status_response :: "string \<Rightarrow> pydict" where
  "status_response s = [''status'' \<mapsto> PyStr s]"

subsection \<open>user\_verify\<close>

text \<open>
  \<^verbatim>\<open>
  def user_verify(msg, default):
    choice_str = '[Yn]' if default else '[yN]'
    while True:
      ok = input(f'\n {msg} {choice_str}: ').lower()
      if len(ok) == 0:
        return default
      if ok not in ['y', 'n']:
        print('please enter y or n')
        continue
      return (ok == 'y')
    return False
  \<close>
  Standard input is the list of the lines still to be read, each without its line end.
  \<open>input\<close> writes the prompt and takes the first line; at the end of the input it
  raises EOFError, which nothing here catches. (The argument \<open>default\<close> is called
  \<open>default_choice\<close> here.)
\<close>

definition prompt_text :: "string \<Rightarrow> bool \<Rightarrow> string" where
  "prompt_text msg default_choice =
     [newline] @ '' '' @ msg @ '' '' @ (if default_choice then ''[Yn]'' else ''[yN]'') @ '': ''"

fun user_verify :: "string \<Rightarrow> bool \<Rightarrow> string list \<Rightarrow> bool run" where
  "user_verify msg default_choice [] = ([Prompt (prompt_text msg default_choice)], Inl EOFError)"
| "user_verify msg default_choice (line # stdin) =
     (let ok = lower line in
      if length ok = 0 then ([Prompt (prompt_text msg default_choice)], Inr default_choice)
      else if ok \<notin> set [''y'', ''n'']
      then (case user_verify msg default_choice stdin of
              (evs, r) \<Rightarrow>
                (Prompt (prompt_text msg default_choice) # Print ''please enter y or n'' # evs, r))
      else ([Prompt (prompt_text msg default_choice)], Inr (ok = ''y'')))"

subsection \<open>Sample inputs\<close>

text \<open>
  Concrete inputs on which the functions are run below: a function that divides and
  fails on zero, a function that is interrupted from the keyboard, and the dictionary of
  a quota record.
\<close>

definition sample_div :: "int \<Rightarrow> int run" where
  "sample_div n =
     ([], if n = 0 then Inl (OtherException ''ZeroDivisionError'') else Inr (100 div n))"

definition interrupted :: "unit \<Rightarrow> int run" where
  "interrupted u = ([], Inl KeyboardInterrupt)"

definition quota_dict :: "string \<Rightarrow> pyval \<Rightarrow> pyval \<Rightarrow> pydict" where
  "quota_dict metric limit usage =
     [''metric'' \<mapsto> PyStr metric, ''limit'' \<mapsto> limit, ''usage'' \<mapsto> usage]"

text \<open>
  The text Python writes for the float 4.7, the one float with a fraction among the
  sample inputs.
\<close>

definition sample_float_repr :: "rat \<Rightarrow> string" where
  "sample_float_repr q = (if q = 47 / 10 then ''4.7'' else ''?'')"

section \<open>Properties\<close>

declare str_nat.simps [simp del]

subsection \<open>trap\<close>

text \<open>
  C3 says that the wrapper returns the sentinel whatever the wrapped function raises, and
  that nothing passes the trap. The clause is \<open>except Exception\<close>: an interrupt from
  the keyboard, a request to exit and the closing of a generator are not instances of
  \<open>Exception\<close>, and they pass. Here the wrapped function is interrupted, and so is
  the wrapper: the sentinel 0 is not returned.
\<close>

theorem trap_propagates_KeyboardInterrupt:
  "trap 0 True interrupted () = ([], Inl KeyboardInterrupt)
   \<and> snd (trap 0 True interrupted ()) \<noteq> Inr 0"
  by (simp add: trap_def wrapper_def interrupted_def)

text \<open>
  C3, amended. If the wrapped function returns, the wrapper returns that value unchanged.
  If it raises an instance of \<open>Exception\<close>, the wrapper returns the sentinel and nothing
  is propagated. If it raises something that is not an instance of \<open>Exception\<close>, the
  wrapper propagates it.
\<close>

theorem trap_returns:
  "(snd (fn args) = Inr response \<longrightarrow> snd (trap error_value silent fn args) = Inr response)
   \<and> (snd (fn args) = Inl e \<and> is_Exception e
        \<longrightarrow> snd (trap error_value silent fn args) = Inr error_value)
   \<and> (snd (fn args) = Inl e \<and> \<not> is_Exception e
        \<longrightarrow> snd (trap error_value silent fn args) = Inl e)"
  by (auto simp: trap_def wrapper_def split: prod.splits sum.splits)

theorem trap_returns_witness:
  "snd (trap (-1) False sample_div 5) = Inr 20
   \<and> snd (trap (-1) False sample_div 0) = Inr (-1)
   \<and> snd (trap 0 False interrupted ()) = Inl KeyboardInterrupt"
proof -
  have a: "snd (sample_div 5) = Inr 20" by (simp add: sample_div_def)
  have b: "snd (sample_div 0) = Inl (OtherException ''ZeroDivisionError'')
             \<and> is_Exception (OtherException ''ZeroDivisionError'')"
    by (simp add: sample_div_def)
  have c: "snd (interrupted ()) = Inl KeyboardInterrupt \<and> \<not> is_Exception KeyboardInterrupt"
    by (simp add: interrupted_def)
  show ?thesis
    using a b c
      trap_returns [of sample_div 5 20 "-1" False ValueError]
      trap_returns [of sample_div 0 20 "-1" False "OtherException ''ZeroDivisionError''"]
      trap_returns [of interrupted "()" 20 0 False KeyboardInterrupt]
    by simp
qed

text \<open>What the log receives: the exception, unless the trap is silent.\<close>

lemma trap_events:
  "snd (fn args) = Inl e \<Longrightarrow> is_Exception e \<Longrightarrow>
     fst (trap error_value silent fn args) =
       fst (fn args) @ (if silent then [] else [LogException e])"
  by (auto simp: trap_def wrapper_def split: prod.splits sum.splits)

subsection \<open>validate\_gpu\_spec\_against\_limits\<close>

text \<open>
  C6. For every requested GPU spec and limit map, the validator returns False exactly
  when the requested kind is absent from the limit map or the requested count exceeds the
  mapped maximum, and True otherwise.
\<close>

theorem validate_gpu_spec_against_limits_iff:
  "snd (validate_gpu_spec_against_limits gpu_spec gpu_limits limit_type) = False
     \<longleftrightarrow> (gpu gpu_spec \<notin> dom gpu_limits
          \<or> (\<exists>maximum. gpu_limits (gpu gpu_spec) = Some maximum \<and> count gpu_spec > maximum))"
  by (auto simp: validate_gpu_spec_against_limits_def split: option.splits)

text \<open>
  The instance of the spec: with the limit map \<open>{A: 2}\<close>, the request \<open>(A, 2)\<close>
  succeeds, \<open>(A, 3)\<close> fails and \<open>(B, 1)\<close> fails.
\<close>

theorem validate_gpu_spec_against_limits_witness:
  "snd (validate_gpu_spec_against_limits (GPUSpec ''A'' 2) [''A'' \<mapsto> 2] ''zone'') = True
   \<and> snd (validate_gpu_spec_against_limits (GPUSpec ''A'' 3) [''A'' \<mapsto> 2] ''zone'') = False
   \<and> snd (validate_gpu_spec_against_limits (GPUSpec ''B'' 1) [''A'' \<mapsto> 2] ''zone'') = False"
  using validate_gpu_spec_against_limits_iff [of "GPUSpec ''A'' 2" "[''A'' \<mapsto> 2]" "''zone''"]
    validate_gpu_spec_against_limits_iff [of "GPUSpec ''A'' 3" "[''A'' \<mapsto> 2]" "''zone''"]
    validate_gpu_spec_against_limits_iff [of "GPUSpec ''B'' 1" "[''A'' \<mapsto> 2]" "''zone''"]
  by simp

subsection \<open>wait\_for\_operation\<close>

text \<open>
  C7. With an empty list of conditions the function returns None at once: no query is
  issued, and there is no sleep.
\<close>

theorem wait_for_operation_no_conditions:
  "wait_for_operation cluster_api name [] sleep_sec message spinner = Some ([], Inr None)"
  by (simp add: wait_for_operation_def wait_for_operation_body_def trap_def wrapper_def)

text \<open>
  The loop, started at the query \<open>i\<close>: if the next \<open>n\<close> answers are responses with a
  status outside the conditions and the one after them is a response with a status among
  them, the loop returns that response after \<open>n + 1\<close> queries and \<open>n\<close> sleeps.
\<close>

lemma wait_loop_until:
  assumes "0 \<le> sleep_sec"
    and "\<forall>j<n. \<exists>r status. cluster_api (i + j) = Inr r \<and> r ''status'' = Some status
            \<and> status \<notin> PyStr ` set cs"
    and "cluster_api (i + n) = Inr rsp" "rsp ''status'' = Some status" "status \<in> PyStr ` set cs"
  shows "wait_loop cluster_api cs sleep_sec i evs =
     Some (evs @ concat (replicate n [Query, Sleep sleep_sec]) @ [Query], Inr rsp)"
  using assms(2,3)
proof (induction n arbitrary: i evs)
  case 0
  then show ?case using assms(4,5) by (subst wait_loop.simps) simp
next
  case (Suc n)
  from Suc.prems(1) obtain r0 s0 where r0: "cluster_api i = Inr r0" "r0 ''status'' = Some s0"
    "s0 \<notin> PyStr ` set cs" by force
  have "\<forall>j<n. \<exists>r status. cluster_api (Suc i + j) = Inr r \<and> r ''status'' = Some status
            \<and> status \<notin> PyStr ` set cs"
    using Suc.prems(1) by (metis Suc_less_eq add_Suc_shift)
  moreover have "cluster_api (Suc i + n) = Inr rsp" using Suc.prems(2) by simp
  ultimately have "wait_loop cluster_api cs sleep_sec (Suc i) (evs @ [Query, Sleep sleep_sec]) =
     Some ((evs @ [Query, Sleep sleep_sec]) @ concat (replicate n [Query, Sleep sleep_sec])
             @ [Query], Inr rsp)"
    by (rule Suc.IH)
  then show ?case using r0 assms(1) by (subst wait_loop.simps) simp
qed

text \<open>
  C2. Let the conditions be a non-empty list and the interval a length of time (not
  negative). If the first \<open>n\<close> answers of the API are responses whose status is not among
  the conditions, and answer \<open>n\<close> is a response whose status is, then the function
  returns: its value is that whole response, and what it did is \<open>n + 1\<close> queries, one
  at a time, with a sleep of the interval after each of the first \<open>n\<close>.
\<close>

theorem wait_for_operation_first_terminal:
  assumes "conditions \<noteq> []" and "0 \<le> sleep_sec"
    and "\<forall>j<n. \<exists>r status. cluster_api j = Inr r \<and> r ''status'' = Some status
            \<and> status \<notin> PyStr ` set (map OpStatus_name conditions)"
    and "cluster_api n = Inr rsp" and "rsp ''status'' = Some status"
    and "status \<in> PyStr ` set (map OpStatus_name conditions)"
  shows "wait_for_operation cluster_api name conditions sleep_sec message spinner =
     Some (concat (replicate n [Query, Sleep sleep_sec]) @ [Query], Inr (Some rsp))"
proof -
  have "wait_loop cluster_api (map OpStatus_name conditions) sleep_sec 0 [] =
     Some ([] @ concat (replicate n [Query, Sleep sleep_sec]) @ [Query], Inr rsp)"
    by (rule wait_loop_until [where status = status]) (use assms in simp_all)
  then show ?thesis using assms(1)
    by (simp add: wait_for_operation_def wait_for_operation_body_def some_response_def
        trap_def wrapper_def)
qed

text \<open>
  The instance of the spec: on the statuses RUNNING, RUNNING, DONE with the condition
  DONE, three queries with two sleeps between them, and the third response is returned.
\<close>

theorem wait_for_operation_first_terminal_witness:
  "wait_for_operation
     (responses [status_response ''RUNNING'', status_response ''RUNNING'',
                 status_response ''DONE''])
     ''operation'' [DONE] 1 '''' True =
   Some ([Query, Sleep 1, Query, Sleep 1, Query], Inr (Some (status_response ''DONE'')))"
proof -
  let ?api = "responses [status_response ''RUNNING'', status_response ''RUNNING'',
                 status_response ''DONE'']"
  have h1: "[DONE] \<noteq> []" by simp
  have h2: "(0::int) \<le> 1" by simp
  have h3: "\<forall>j<2. \<exists>r status. ?api j = Inr r \<and> r ''status'' = Some status
            \<and> status \<notin> PyStr ` set (map OpStatus_name [DONE])"
    by (simp add: responses_def status_response_def less_Suc_eq numeral_2_eq_2)
  have h4: "?api 2 = Inr (status_response ''DONE'')" by (simp add: responses_def)
  have h5: "status_response ''DONE'' ''status'' = Some (PyStr ''DONE'')"
    by (simp add: status_response_def)
  have h6: "PyStr ''DONE'' \<in> PyStr ` set (map OpStatus_name [DONE])" by simp
  show ?thesis
    using wait_for_operation_first_terminal
            [OF h1 h2 h3 h4 h5 h6, of "''operation''" "''''" True]
    by (simp add: numeral_2_eq_2)
qed

subsection \<open>user\_verify\<close>

lemma of_char_less_256: "(of_char c :: nat) < 256"
  by (cases c) simp

lemma char_eq_iff_nat: "c = d \<longleftrightarrow> (of_char c :: nat) = of_char d"
  by simp

lemma lower_char_eq_y: "lower_char c = CHR ''y'' \<longleftrightarrow> c = CHR ''y'' \<or> c = CHR ''Y''"
proof -
  have lt: "(of_char c :: nat) < 256" by (rule of_char_less_256)
  show ?thesis
    unfolding lower_char_def is_upper_def
    using lt by (auto simp: char_eq_iff_nat [of _ "CHR ''y''"] char_eq_iff_nat [of _ "CHR ''Y''"])
qed

lemma lower_char_eq_n: "lower_char c = CHR ''n'' \<longleftrightarrow> c = CHR ''n'' \<or> c = CHR ''N''"
proof -
  have lt: "(of_char c :: nat) < 256" by (rule of_char_less_256)
  show ?thesis
    unfolding lower_char_def is_upper_def
    using lt by (auto simp: char_eq_iff_nat [of _ "CHR ''n''"] char_eq_iff_nat [of _ "CHR ''N''"])
qed

lemma lower_eq_y: "lower l = ''y'' \<longleftrightarrow> l = ''y'' \<or> l = ''Y''"
  by (cases l) (auto simp: lower_def lower_char_eq_y)

lemma lower_eq_n: "lower l = ''n'' \<longleftrightarrow> l = ''n'' \<or> l = ''N''"
  by (cases l) (auto simp: lower_def lower_char_eq_n)

lemma lower_eq_Nil: "lower l = [] \<longleftrightarrow> l = []"
  by (simp add: lower_def)

text \<open>A line that is not an answer: the prompt, the complaint, and the next line is read.\<close>

lemma user_verify_rejected:
  assumes "l \<noteq> []" "l \<noteq> ''y''" "l \<noteq> ''Y''" "l \<noteq> ''n''" "l \<noteq> ''N''"
  shows "user_verify msg d (l # stdin) =
     (Prompt (prompt_text msg d) # Print ''please enter y or n'' # fst (user_verify msg d stdin),
      snd (user_verify msg d stdin))"
  using assms by (simp add: Let_def lower_eq_y lower_eq_n lower_eq_Nil split: prod.splits)

lemma user_verify_accepted:
  assumes "l = [] \<or> l = ''y'' \<or> l = ''Y'' \<or> l = ''n'' \<or> l = ''N''"
  shows "user_verify msg d (l # stdin) =
     ([Prompt (prompt_text msg d)], Inr (if l = [] then d else (l = ''y'' \<or> l = ''Y'')))"
  using assms by (auto simp add: Let_def lower_eq_y lower_eq_n lower_eq_Nil)

text \<open>
  C8. If the lines read first are none of the empty line, \<open>y\<close>, \<open>Y\<close>, \<open>n\<close>, \<open>N\<close>, and
  the line after them is one of these, then the function prompts once for each of these
  lines, complains after each rejected one, and returns on the first accepted line: the
  default for the empty line, True for \<open>y\<close> or \<open>Y\<close>, False for \<open>n\<close> or \<open>N\<close>. What
  follows that line is not read.
\<close>

theorem user_verify_until_valid:
  assumes "\<forall>l \<in> set rejected. l \<noteq> [] \<and> l \<noteq> ''y'' \<and> l \<noteq> ''Y'' \<and> l \<noteq> ''n'' \<and> l \<noteq> ''N''"
    and "line = [] \<or> line = ''y'' \<or> line = ''Y'' \<or> line = ''n'' \<or> line = ''N''"
  shows "user_verify msg d (rejected @ line # rest) =
     (concat (replicate (length rejected)
                [Prompt (prompt_text msg d), Print ''please enter y or n''])
        @ [Prompt (prompt_text msg d)],
      Inr (if line = [] then d else (line = ''y'' \<or> line = ''Y'')))"
  using assms(1)
proof (induction rejected)
  case Nil
  show ?case using user_verify_accepted [OF assms(2)] by simp
next
  case (Cons l ls)
  then show ?case by (simp add: user_verify_rejected del: user_verify.simps)
qed

theorem user_verify_until_valid_witness:
  "user_verify ''ok?'' True [''x'', ''yes'', ''N'', ''y''] =
     ([Prompt (prompt_text ''ok?'' True), Print ''please enter y or n'',
       Prompt (prompt_text ''ok?'' True), Print ''please enter y or n'',
       Prompt (prompt_text ''ok?'' True)], Inr False)
   \<and> user_verify ''ok?'' True [''''] = ([Prompt (prompt_text ''ok?'' True)], Inr True)
   \<and> user_verify ''ok?'' False [''Y''] = ([Prompt (prompt_text ''ok?'' False)], Inr True)"
proof -
  have r: "\<forall>l \<in> set [''x'', ''yes''].
             l \<noteq> [] \<and> l \<noteq> ''y'' \<and> l \<noteq> ''Y'' \<and> l \<noteq> ''n'' \<and> l \<noteq> ''N''"
    by simp
  have e: "\<forall>l \<in> set ([]::string list).
             l \<noteq> [] \<and> l \<noteq> ''y'' \<and> l \<noteq> ''Y'' \<and> l \<noteq> ''n'' \<and> l \<noteq> ''N''"
    by simp
  have a: "''N'' = [] \<or> ''N'' = ''y'' \<or> ''N'' = ''Y'' \<or> ''N'' = ''n'' \<or> ''N'' = ''N''" by simp
  have b: "'''' = [] \<or> '''' = ''y'' \<or> '''' = ''Y'' \<or> '''' = ''n'' \<or> '''' = ''N''" by simp
  have c: "''Y'' = [] \<or> ''Y'' = ''y'' \<or> ''Y'' = ''Y'' \<or> ''Y'' = ''n'' \<or> ''Y'' = ''N''" by simp
  show ?thesis
    using user_verify_until_valid [OF r a, of "''ok?''" True "[''y'']"]
      user_verify_until_valid [OF e b, of "''ok?''" True "[]"]
      user_verify_until_valid [OF e c, of "''ok?''" False "[]"]
    by simp
qed

text \<open>Where the input ends before an answer, \<open>input\<close> raises EOFError.\<close>

lemma user_verify_end_of_input:
  "user_verify msg d [] = ([Prompt (prompt_text msg d)], Inl EOFError)"
  by simp

subsection \<open>The patterns\<close>

lemma strip_prefix_iff: "strip_prefix p s = Some r \<longleftrightarrow> s = p @ r"
  by (induction p s rule: strip_prefix.induct) auto

text \<open>A run of characters of a class, followed by nothing or by a character outside it.\<close>

lemma span_run:
  assumes "list_all P m" "rest = [] \<or> \<not> P (hd rest)"
  shows "takeWhile P (m @ rest) = m" "dropWhile P (m @ rest) = rest"
proof -
  have r: "takeWhile P rest = []" "dropWhile P rest = rest"
    using assms(2) by (cases rest; simp)+
  from assms(1) have a: "\<And>x. x \<in> set m \<Longrightarrow> P x" by (simp add: list_all_iff)
  show "takeWhile P (m @ rest) = m" using a r by (simp add: takeWhile_append2)
  show "dropWhile P (m @ rest) = rest" using a r by (simp add: dropWhile_append2)
qed

lemma list_all_takeWhile: "list_all P (takeWhile P xs)"
  by (induction xs) auto

lemma newline_not_class: "\<not> is_lower newline" "\<not> is_upper newline" "\<not> is_digit newline"
  by (simp_all add: newline_def is_lower_def is_upper_def is_digit_def)

text \<open>
  What each pattern matches, and the groups it gives. In each case the string is the
  text the pattern describes, or that text followed by one newline.
\<close>

lemma gke_gpu_re_match_iff:
  "gke_gpu_re_match s = Some m \<longleftrightarrow>
     m \<noteq> [] \<and> list_all (\<lambda>c. is_lower c \<or> is_digit c) m
     \<and> (s = ''nvidia-tesla-'' @ m \<or> s = ''nvidia-tesla-'' @ m @ [newline])"
  (is "?L \<longleftrightarrow> ?R")
proof
  assume ?L
  then obtain r where r: "s = ''nvidia-tesla-'' @ r"
    and m: "m = takeWhile (\<lambda>c. is_lower c \<or> is_digit c) r" "m \<noteq> []"
    and e: "at_end (dropWhile (\<lambda>c. is_lower c \<or> is_digit c) r)"
    unfolding gke_gpu_re_match_def
    by (auto simp: strip_prefix_iff split: option.splits if_splits)
  define d where "d = dropWhile (\<lambda>c. is_lower c \<or> is_digit c) r"
  have md: "r = m @ d" using m(1) d_def by simp
  from e have "d = [] \<or> d = [newline]" unfolding at_end_def d_def .
  with md have "r = m \<or> r = m @ [newline]" by auto
  with r m show ?R by (auto simp: list_all_takeWhile)
next
  assume R: ?R
  then obtain rest where rest: "rest = [] \<or> rest = [newline]"
    "s = ''nvidia-tesla-'' @ (m @ rest)"
    by auto
  have sp: "strip_prefix ''nvidia-tesla-'' s = Some (m @ rest)"
    unfolding strip_prefix_iff using rest(2) .
  have nc: "rest = [] \<or> \<not> (is_lower (hd rest) \<or> is_digit (hd rest))"
    using rest(1) newline_not_class by auto
  from R have la: "list_all (\<lambda>c. is_lower c \<or> is_digit c) m" by simp
  show ?L
    unfolding gke_gpu_re_match_def sp
    using span_run [OF la nc] R rest(1) by (auto simp: at_end_def)
qed

lemma tpu_re_match_iff:
  "tpu_re_match s = Some (v, c) \<longleftrightarrow>
     (v = ''v2'' \<or> v = ''v3'') \<and> c \<noteq> [] \<and> list_all is_digit c
     \<and> (s = v @ ''-'' @ c \<or> s = v @ ''-'' @ c @ [newline])"
  (is "?L \<longleftrightarrow> ?R")
proof
  assume ?L
  then obtain r where r: "s = v @ ''-'' @ r" "v = ''v2'' \<or> v = ''v3''"
    and m: "c = takeWhile is_digit r" "c \<noteq> []"
    and e: "at_end (dropWhile is_digit r)"
    unfolding tpu_re_match_def
    by (auto simp: strip_prefix_iff split: option.splits if_splits)
  define d where "d = dropWhile is_digit r"
  have md: "r = c @ d" using m(1) d_def by simp
  from e have "d = [] \<or> d = [newline]" unfolding at_end_def d_def .
  with md have "r = c \<or> r = c @ [newline]" by auto
  with r m show ?R by (auto simp: list_all_takeWhile)
next
  assume R: ?R
  then obtain rest where rest: "rest = [] \<or> rest = [newline]" "s = v @ ''-'' @ (c @ rest)"
    by auto
  have nc: "rest = [] \<or> \<not> is_digit (hd rest)"
    using rest(1) newline_not_class by auto
  from R have la: "list_all is_digit c" by simp
  from R have "v = ''v2'' \<or> v = ''v3''" by simp
  then show ?L
  proof
    assume v: "v = ''v2''"
    have sp: "strip_prefix ''v2'' s = Some (''-'' @ (c @ rest))"
      unfolding strip_prefix_iff using rest(2) v by simp
    show ?L unfolding tpu_re_match_def sp
      using span_run [OF la nc] R rest(1) v by (auto simp: at_end_def)
  next
    assume v: "v = ''v3''"
    have sp: "strip_prefix ''v3'' s = Some (''-'' @ (c @ rest))"
      unfolding strip_prefix_iff using rest(2) v by simp
    have sp2: "strip_prefix ''v2'' s = None"
      using rest(2) v by simp
    show ?L unfolding tpu_re_match_def sp sp2
      using span_run [OF la nc] R rest(1) v by (auto simp: at_end_def)
  qed
qed

lemma quota_gpu_re_match_iff:
  "quota_gpu_re_match s = Some m \<longleftrightarrow>
     m \<noteq> [] \<and> list_all (\<lambda>c. is_upper c \<or> is_digit c) m
     \<and> (s = ''NVIDIA_'' @ m @ ''_GPUS'' \<or> s = ''NVIDIA_'' @ m @ ''_GPUS'' @ [newline])"
  (is "?L \<longleftrightarrow> ?R")
proof
  assume ?L
  then obtain r rest where r: "s = ''NVIDIA_'' @ r"
    and m: "m = takeWhile (\<lambda>c. is_upper c \<or> is_digit c) r" "m \<noteq> []"
    and d: "dropWhile (\<lambda>c. is_upper c \<or> is_digit c) r = ''_GPUS'' @ rest"
    and e: "at_end rest"
    unfolding quota_gpu_re_match_def
    by (auto simp: strip_prefix_iff split: option.splits if_splits)
  have md: "r = m @ ''_GPUS'' @ rest" using m(1) d [symmetric] by simp
  from e have "rest = [] \<or> rest = [newline]" unfolding at_end_def .
  with md have "r = m @ ''_GPUS'' \<or> r = m @ ''_GPUS'' @ [newline]" by auto
  with r m show ?R by (auto simp: list_all_takeWhile)
next
  assume R: ?R
  then obtain rest where rest: "rest = [] \<or> rest = [newline]"
    "s = ''NVIDIA_'' @ (m @ (''_GPUS'' @ rest))"
    by auto
  have sp: "strip_prefix ''NVIDIA_'' s = Some (m @ (''_GPUS'' @ rest))"
    unfolding strip_prefix_iff using rest(2) .
  have nc: "''_GPUS'' @ rest = []
              \<or> \<not> (is_upper (hd (''_GPUS'' @ rest)) \<or> is_digit (hd (''_GPUS'' @ rest)))"
    by (simp add: is_upper_def is_digit_def)
  from R have la: "list_all (\<lambda>c. is_upper c \<or> is_digit c) m" by simp
  have sp2: "strip_prefix ''_GPUS'' (''_GPUS'' @ rest) = Some rest"
    unfolding strip_prefix_iff ..
  show ?L
    unfolding quota_gpu_re_match_def sp
    using span_run [OF la nc] R rest(1) sp2 by (auto simp: at_end_def)
qed

subsection \<open>Decimal text\<close>

lemma decimal_snoc: "decimal (s @ [c]) = 10 * decimal s + digit_value c"
  by (simp add: decimal_def)

lemma digit_char:
  "d < 10 \<Longrightarrow> digit_value (char_of (48 + d)) = d \<and> is_digit (char_of (48 + d))"
  by (simp add: digit_value_def is_digit_def)

text \<open>The text of a natural number is made of digits, and reads back as the number.\<close>

lemma str_nat_decimal:
  "decimal (str_nat n) = n \<and> list_all is_digit (str_nat n) \<and> str_nat n \<noteq> []"
proof (induction n rule: str_nat.induct)
  case (1 n)
  show ?case
  proof (cases "n < 10")
    case True
    then show ?thesis
      using digit_char [of n] by (subst (1 2 3) str_nat.simps) (simp add: decimal_def)
  next
    case False
    have "n mod 10 < 10" by simp
    from digit_char [OF this] 1 [OF False] False show ?thesis
      by (subst (1 2 3) str_nat.simps) (simp add: decimal_snoc)
  qed
qed

subsection \<open>gke\_tpu\_to\_tpuspec\<close>

lemma upper_v: "upper ''v2'' = ''V2''" "upper ''v3'' = ''V3''"
  by code_simp+

text \<open>
  The strings \<open>v2-<count>\<close> and \<open>v3-<count>\<close>, with a count of one or more digits, give
  the TPUSpec of that version and of the number the digits write.
\<close>

lemma gke_tpu_to_tpuspec_accepts:
  assumes "c \<noteq> []" "list_all is_digit c"
  shows "gke_tpu_to_tpuspec (''v2-'' @ c) = ([], Inr (Some (TPUSpec V2 (int (decimal c)))))"
    and "gke_tpu_to_tpuspec (''v3-'' @ c) = ([], Inr (Some (TPUSpec V3 (int (decimal c)))))"
proof -
  have "tpu_re_match (''v2-'' @ c) = Some (''v2'', c)"
    "tpu_re_match (''v3-'' @ c) = Some (''v3'', c)"
    unfolding tpu_re_match_iff using assms by simp_all
  then show "gke_tpu_to_tpuspec (''v2-'' @ c) = ([], Inr (Some (TPUSpec V2 (int (decimal c)))))"
    and "gke_tpu_to_tpuspec (''v3-'' @ c) = ([], Inr (Some (TPUSpec V3 (int (decimal c)))))"
    by (simp_all add: gke_tpu_to_tpuspec_def gke_tpu_to_tpuspec_body_def trap_def wrapper_def
        pure_fn_def upper_v)
qed

text \<open>
  A string that is neither of that form nor of that form followed by one newline gives
  None: the AttributeError of the failed match is trapped.
\<close>

lemma gke_tpu_to_tpuspec_rejects:
  assumes "\<not> (\<exists>v c. (v = ''v2'' \<or> v = ''v3'') \<and> c \<noteq> [] \<and> list_all is_digit c
              \<and> (s = v @ ''-'' @ c \<or> s = v @ ''-'' @ c @ [newline]))"
  shows "gke_tpu_to_tpuspec s = ([], Inr None)"
proof -
  have "tpu_re_match s = None"
  proof (cases "tpu_re_match s")
    case (Some p)
    obtain v c where "p = (v, c)" by (cases p)
    with Some assms show ?thesis unfolding tpu_re_match_iff [symmetric] by simp
  qed simp
  then show ?thesis
    by (simp add: gke_tpu_to_tpuspec_def gke_tpu_to_tpuspec_body_def trap_def wrapper_def
        pure_fn_def)
qed

text \<open>
  C4 says that every string of the form \<open><version>-<count>\<close>, with the version v2 or v3
  and the count a non-negative decimal integer, gives the TPUSpec of that version and
  count, and that every other string gives None. The string \<open>v2-8\<close> followed by a
  newline is not of that form; the pattern ends in \<open>$\<close>, which matches before a final
  newline, and the function returns the TPUSpec of v2 and 8 where the claim says None.
\<close>

theorem gke_tpu_to_tpuspec_trailing_newline:
  "gke_tpu_to_tpuspec (''v2-8'' @ [newline]) = ([], Inr (Some (TPUSpec V2 8)))"
  by code_simp

subsection \<open>gke\_gpu\_to\_gpu\<close>

lemma gke_gpu_to_gpu_eq:
  "gke_gpu_to_gpu G s =
     ([], Inr (case gke_gpu_re_match s of None \<Rightarrow> None | Some m \<Rightarrow> G (upper m)))"
  by (simp add: gke_gpu_to_gpu_def gke_gpu_to_gpu_body_def trap_def wrapper_def pure_fn_def
      split: option.splits)

text \<open>
  The string \<open>nvidia-tesla-<model>\<close>, with a model of lower-case letters and digits whose
  upper-case form names a member of the enumeration, gives that member.
\<close>

lemma gke_gpu_to_gpu_accepts:
  assumes "m \<noteq> []" "list_all (\<lambda>c. is_lower c \<or> is_digit c) m" "G (upper m) = Some g"
  shows "gke_gpu_to_gpu G (''nvidia-tesla-'' @ m) = ([], Inr (Some g))"
proof -
  have "gke_gpu_re_match (''nvidia-tesla-'' @ m) = Some m"
    unfolding gke_gpu_re_match_iff using assms by simp
  then show ?thesis using assms(3) by (simp add: gke_gpu_to_gpu_eq)
qed

text \<open>
  A string that is neither of that form nor of that form followed by one newline gives
  None.
\<close>

lemma gke_gpu_to_gpu_rejects:
  assumes "\<not> (\<exists>m. m \<noteq> [] \<and> list_all (\<lambda>c. is_lower c \<or> is_digit c) m \<and> G (upper m) \<noteq> None
              \<and> (s = ''nvidia-tesla-'' @ m \<or> s = ''nvidia-tesla-'' @ m @ [newline]))"
  shows "gke_gpu_to_gpu G s = ([], Inr None)"
proof (cases "gke_gpu_re_match s")
  case None
  then show ?thesis by (simp add: gke_gpu_to_gpu_eq)
next
  case (Some m)
  with assms have "G (upper m) = None" unfolding gke_gpu_re_match_iff by blast
  with Some show ?thesis by (simp add: gke_gpu_to_gpu_eq)
qed

text \<open>
  A model that holds a character other than a lower-case letter, a digit or a newline
  gives None, whatever the enumeration: an upper-case letter in particular.
\<close>

lemma gke_gpu_to_gpu_case_sensitive:
  assumes "c \<in> set m" "\<not> (is_lower c \<or> is_digit c)" "c \<noteq> newline"
  shows "gke_gpu_to_gpu G (''nvidia-tesla-'' @ m) = ([], Inr None)"
proof (rule gke_gpu_to_gpu_rejects, rule notI)
  assume "\<exists>m'. m' \<noteq> [] \<and> list_all (\<lambda>c. is_lower c \<or> is_digit c) m' \<and> G (upper m') \<noteq> None
              \<and> (''nvidia-tesla-'' @ m = ''nvidia-tesla-'' @ m'
                  \<or> ''nvidia-tesla-'' @ m = ''nvidia-tesla-'' @ m' @ [newline])"
  then obtain m' where m': "list_all (\<lambda>c. is_lower c \<or> is_digit c) m'"
    "m = m' \<or> m = m' @ [newline]"
    by auto
  with assms show False by (auto simp: list_all_iff)
qed

lemma gke_gpu_to_gpu_upper_case_model:
  "gke_gpu_to_gpu sample_GPU_by_name ''nvidia-tesla-V100'' = ([], Inr None)"
  by code_simp

text \<open>
  C5 says that every string \<open>nvidia-tesla-<model>\<close> with a known model gives the GPU of
  that model, and that every string with an unknown model and every malformed string
  gives None. With the models K80 and V100, the string \<open>nvidia-tesla-v100\<close> followed by
  a newline is malformed; the pattern ends in \<open>$\<close>, which matches before a final
  newline, and the function returns V100 where the claim says None.
\<close>

theorem gke_gpu_to_gpu_trailing_newline:
  "gke_gpu_to_gpu sample_GPU_by_name (''nvidia-tesla-v100'' @ [newline]) = ([], Inr (Some V100))"
  by code_simp

text \<open>
  C10 says that every string whose model part holds a character that is not a lower-case
  letter or a digit gives None. In \<open>nvidia-tesla-k80\<close> followed by a newline the model
  part, all that follows \<open>nvidia-tesla-\<close>, ends in a newline, which is such a character;
  the function returns K80 where the claim says None.
\<close>

theorem gke_gpu_to_gpu_model_ending_in_newline:
  "gke_gpu_to_gpu sample_GPU_by_name (''nvidia-tesla-'' @ (''k80'' @ [newline]))
     = ([], Inr (Some K80))"
  by code_simp

subsection \<open>resource\_limits\_from\_quotas\<close>

text \<open>The dictionaries the code builds are the limit records of the spec.\<close>

lemma limit_record_eq:
  "[''resourceType'' \<mapsto> PyStr a, ''maximum'' \<mapsto> PyStr b] = limit_record a b"
  by (auto simp: limit_record_def fun_eq_iff)

lemma strip_suffix_iff: "strip_suffix p s = Some r \<longleftrightarrow> s = r @ p"
proof
  assume "strip_suffix p s = Some r"
  then have "drop (length s - length p) s = p" "r = take (length s - length p) s"
    by (auto simp: strip_suffix_def split: if_splits)
  then show "s = r @ p" by (metis append_take_drop_id)
next
  assume "s = r @ p"
  then show "strip_suffix p s = Some r" by (simp add: strip_suffix_def)
qed

lemma strip_suffix_append: "strip_suffix p (r @ p) = Some r"
  by (simp add: strip_suffix_iff)

text \<open>The metrics of the form \<open>NVIDIA_<MODEL>_GPUS\<close>, and those followed by a newline.\<close>

lemma nvidia_model_iff:
  "nvidia_model s = Some m \<longleftrightarrow>
     m \<noteq> [] \<and> list_all (\<lambda>c. is_upper c \<or> is_digit c) m \<and> s = ''NVIDIA_'' @ m @ ''_GPUS''"
  (is "?L \<longleftrightarrow> ?R")
proof
  assume ?L
  then obtain r where "strip_prefix ''NVIDIA_'' s = Some r" "strip_suffix ''_GPUS'' r = Some m"
    "m \<noteq> []" "list_all (\<lambda>c. is_upper c \<or> is_digit c) m"
    unfolding nvidia_model_def by (auto split: option.splits if_splits)
  then show ?R by (simp add: strip_prefix_iff strip_suffix_iff)
next
  assume R: ?R
  then have "strip_prefix ''NVIDIA_'' s = Some (m @ ''_GPUS'')"
    unfolding strip_prefix_iff by simp
  with R show ?L
    unfolding nvidia_model_def by (simp add: strip_suffix_append)
qed

lemma newline_after_metric_iff:
  "newline_after_metric s \<longleftrightarrow>
     (\<exists>m. m \<noteq> [] \<and> list_all (\<lambda>c. is_upper c \<or> is_digit c) m
          \<and> s = ''NVIDIA_'' @ m @ ''_GPUS'' @ [newline])"
  (is "?L \<longleftrightarrow> ?R")
proof
  assume ?L
  then have ne: "s \<noteq> []" and la: "last s = newline"
    and nm: "nvidia_model (butlast s) \<noteq> None"
    unfolding newline_after_metric_def by blast+
  from nm obtain m where m: "nvidia_model (butlast s) = Some m" by blast
  from m have m1: "m \<noteq> []" and m2: "list_all (\<lambda>c. is_upper c \<or> is_digit c) m"
    and m3: "butlast s = ''NVIDIA_'' @ m @ ''_GPUS''"
    using nvidia_model_iff [of "butlast s" m] by blast+
  have "butlast s @ [last s] = s" using ne by (rule append_butlast_last_id)
  then have "(''NVIDIA_'' @ m @ ''_GPUS'') @ [newline] = s" by (simp only: m3 la)
  then have "s = ''NVIDIA_'' @ m @ ''_GPUS'' @ [newline]" by (simp only: append_assoc)
  with m1 m2 show ?R by blast
next
  assume ?R
  then obtain m where m1: "m \<noteq> []" and m2: "list_all (\<lambda>c. is_upper c \<or> is_digit c) m"
    and m3: "s = ''NVIDIA_'' @ m @ ''_GPUS'' @ [newline]" by blast
  have s: "s = (''NVIDIA_'' @ m @ ''_GPUS'') @ [newline]" by (simp only: m3 append_assoc)
  have b: "butlast s = ''NVIDIA_'' @ m @ ''_GPUS''" by (simp only: s butlast_snoc)
  have l: "last s = newline" by (simp only: s last_snoc)
  have n: "s \<noteq> []" by (simp only: s) simp
  have "nvidia_model (butlast s) = Some m"
    using nvidia_model_iff [of "butlast s" m] m1 m2 b by blast
  with l n show ?L unfolding newline_after_metric_def by simp
qed

text \<open>
  Apart from the metrics of that form followed by one newline, the pattern of the code
  matches the metrics of the form \<open>NVIDIA_<MODEL>_GPUS\<close> and no other.
\<close>

lemma quota_gpu_re_match_eq:
  assumes "\<not> newline_after_metric s"
  shows "quota_gpu_re_match s = nvidia_model s"
proof (cases "quota_gpu_re_match s")
  case None
  have "nvidia_model s = None"
  proof (cases "nvidia_model s")
    case (Some m)
    then have "quota_gpu_re_match s = Some m"
      unfolding quota_gpu_re_match_iff nvidia_model_iff by simp
    with None show ?thesis by simp
  qed simp
  with None show ?thesis by simp
next
  case (Some m)
  then have m: "m \<noteq> []" "list_all (\<lambda>c. is_upper c \<or> is_digit c) m"
    "s = ''NVIDIA_'' @ m @ ''_GPUS'' \<or> s = ''NVIDIA_'' @ m @ ''_GPUS'' @ [newline]"
    unfolding quota_gpu_re_match_iff by simp_all
  from assms m(1,2) have "s \<noteq> ''NVIDIA_'' @ m @ ''_GPUS'' @ [newline]"
    unfolding newline_after_metric_iff by blast
  with m have "nvidia_model s = Some m" unfolding nvidia_model_iff by simp
  with Some show ?thesis by simp
qed

lemma limits_of_quota_pair:
  "limits_of_quota k ios fr (metric, limit) =
     (if metric = ''CPUS''
      then (case py_int ios limit of
              Inr n \<Rightarrow> [limit_record ''cpu'' (py_str fr limit),
                        limit_record ''memory'' (str_int (n * k))]
            | Inl e \<Rightarrow> [])
      else (case nvidia_model metric of
              Some model \<Rightarrow> [limit_record (''nvidia-tesla-'' @ lower model) (py_str fr limit)]
            | None \<Rightarrow> []))"
  by (simp add: limits_of_quota_def)

text \<open>
  The loop returns what it was given, followed by the limit records of each quota in
  turn.
\<close>

lemma quota_loop_eq:
  assumes "list_all2 is_quota quotas recs"
    and "\<forall>r \<in> set recs. \<not> newline_after_metric (fst r)"
    and "\<forall>r \<in> set recs. fst r = ''CPUS'' \<longrightarrow> int_accepts ios (snd r)"
  shows "quota_loop k ios fr quotas limits =
           Inr (limits @ concat (map (limits_of_quota k ios fr) recs))"
  using assms
proof (induction quotas recs arbitrary: limits rule: list_all2_induct)
  case Nil
  show ?case by simp
next
  case (Cons q quotas r recs)
  obtain metric limit where r: "r = (metric, limit)" by (cases r)
  from Cons.hyps(1) r have q: "q ''metric'' = Some (PyStr metric)" "q ''limit'' = Some limit"
    by (simp_all add: is_quota_def)
  from Cons.prems(1) r have nl: "quota_gpu_re_match metric = nvidia_model metric"
    by (simp add: quota_gpu_re_match_eq)
  have IH: "\<And>limits. quota_loop k ios fr quotas limits =
           Inr (limits @ concat (map (limits_of_quota k ios fr) recs))"
    using Cons.IH Cons.prems by simp
  show ?case
  proof (cases "metric = ''CPUS''")
    case True
    with Cons.prems(2) r obtain n where n: "py_int ios limit = Inr n"
      by (auto simp: int_accepts_def split: sum.splits)
    show ?thesis
      by (simp add: q r True n IH limits_of_quota_pair limit_record_eq)
  next
    case False
    show ?thesis
      by (simp add: q r False nl IH limits_of_quota_pair limit_record_eq split: option.splits)
  qed
qed

text \<open>
  C1 says that the \<open>memory\<close> record of a CPUS quota has the limit of the quota times
  the GB-per-CPU constant as its maximum. The code multiplies \<open>int(limit)\<close>: for the
  limit 4.7 and 64 GB per CPU the maximum is the text of \<open>4 * 64 = 256\<close>, and 4.7
  times 64 is not 256.
\<close>

theorem resource_limits_memory_of_fractional_limit:
  "shown (resource_limits_from_quotas 64 Map.empty sample_float_repr
            [quota_dict ''CPUS'' (PyFloat (Finite (47 / 10))) (PyInt 0)]) =
       Some [(Some (PyStr ''cpu''), Some (PyStr ''4.7'')),
             (Some (PyStr ''memory''), Some (PyStr ''256''))]
   \<and> (47 / 10 :: rat) * 64 \<noteq> 256"
  by code_simp

text \<open>
  C1, amended. Let every dictionary of the list hold a string under \<open>metric\<close> and a
  value under \<open>limit\<close>, let no metric be of the form \<open>NVIDIA_<MODEL>_GPUS\<close> followed by
  a newline, and let the limit of every CPUS quota be one that \<open>int\<close> accepts (an
  integer, a float that is not an infinity or NaN, a string of digits). Then the
  function returns the concatenation, in the order of the input, of the limit records of
  each quota: for \<open>CPUS\<close> the record \<open>cpu\<close> whose maximum is the string
  \<open>str(limit)\<close>, then the record \<open>memory\<close> whose maximum is the decimal string of
  \<open>int(limit)\<close> times the GB-per-CPU constant; for \<open>NVIDIA_<MODEL>_GPUS\<close>, the model
  being upper-case letters and digits, one record \<open>nvidia-tesla-<model in lower case>\<close>
  whose maximum is \<open>str(limit)\<close>; for any other metric nothing. A metric that occurs
  twice is translated twice. Nothing is said of a metric of that form followed by a
  newline.
\<close>

theorem resource_limits_from_quotas_translation:
  assumes "list_all2 is_quota quotas recs"
    and "\<forall>r \<in> set recs. \<not> newline_after_metric (fst r)"
    and "\<forall>r \<in> set recs. fst r = ''CPUS'' \<longrightarrow> int_accepts ios (snd r)"
  shows "resource_limits_from_quotas k ios fr quotas =
           ([], Inr (Some (concat (map (limits_of_quota k ios fr) recs))))"
  using quota_loop_eq [OF assms, of k fr "[]"]
  by (simp add: resource_limits_from_quotas_def resource_limits_from_quotas_body_def trap_def
      wrapper_def pure_fn_def)

text \<open>
  The instances of the spec in one list, with 16 GB per CPU: CPUS with the limit 4,
  NVIDIA\_V100\_GPUS with the limit 2, DISKS with the limit 10, CPUS with the limit 72.0
  as the API writes it, and CPUS with the limit 4 once more.
\<close>

theorem resource_limits_from_quotas_translation_witness:
  "shown (resource_limits_from_quotas 16 Map.empty sample_float_repr
     [quota_dict ''CPUS'' (PyInt 4) (PyInt 0),
      quota_dict ''NVIDIA_V100_GPUS'' (PyInt 2) (PyInt 0),
      quota_dict ''DISKS'' (PyInt 10) (PyInt 0),
      quota_dict ''CPUS'' (PyFloat (Finite 72)) (PyFloat (Finite 0)),
      quota_dict ''CPUS'' (PyInt 4) (PyInt 0)]) =
   Some [(Some (PyStr ''cpu''), Some (PyStr ''4'')),
         (Some (PyStr ''memory''), Some (PyStr ''64'')),
         (Some (PyStr ''nvidia-tesla-v100''), Some (PyStr ''2'')),
         (Some (PyStr ''cpu''), Some (PyStr ''72.0'')),
         (Some (PyStr ''memory''), Some (PyStr ''1152'')),
         (Some (PyStr ''cpu''), Some (PyStr ''4'')),
         (Some (PyStr ''memory''), Some (PyStr ''64''))]"
proof -
  let ?recs = "[(''CPUS'', PyInt 4), (''NVIDIA_V100_GPUS'', PyInt 2), (''DISKS'', PyInt 10),
                (''CPUS'', PyFloat (Finite 72)), (''CPUS'', PyInt 4)]"
  have h1: "list_all2 is_quota
     [quota_dict ''CPUS'' (PyInt 4) (PyInt 0),
      quota_dict ''NVIDIA_V100_GPUS'' (PyInt 2) (PyInt 0),
      quota_dict ''DISKS'' (PyInt 10) (PyInt 0),
      quota_dict ''CPUS'' (PyFloat (Finite 72)) (PyFloat (Finite 0)),
      quota_dict ''CPUS'' (PyInt 4) (PyInt 0)] ?recs"
    by (simp add: is_quota_def quota_dict_def)
  have h2: "\<forall>r \<in> set ?recs. \<not> newline_after_metric (fst r)" by code_simp
  have h3: "\<forall>r \<in> set ?recs. fst r = ''CPUS'' \<longrightarrow> int_accepts Map.empty (snd r)" by code_simp
  have e: "shown ([], Inr (Some (concat (map (limits_of_quota 16 Map.empty sample_float_repr) ?recs)))) =
   Some [(Some (PyStr ''cpu''), Some (PyStr ''4'')),
         (Some (PyStr ''memory''), Some (PyStr ''64'')),
         (Some (PyStr ''nvidia-tesla-v100''), Some (PyStr ''2'')),
         (Some (PyStr ''cpu''), Some (PyStr ''72.0'')),
         (Some (PyStr ''memory''), Some (PyStr ''1152'')),
         (Some (PyStr ''cpu''), Some (PyStr ''4'')),
         (Some (PyStr ''memory''), Some (PyStr ''64''))]"
    by code_simp
  show ?thesis
    unfolding resource_limits_from_quotas_translation [OF h1 h2 h3, of 16 sample_float_repr] by (rule e)
qed

text \<open>
  The case the amended claim leaves out: the pattern ends in \<open>$\<close>, which matches before
  a final newline, and a limit record is returned for the metric \<open>NVIDIA_V100_GPUS\<close>
  followed by a newline.
\<close>

lemma resource_limits_newline_after_metric:
  "shown (resource_limits_from_quotas 16 Map.empty sample_float_repr
     [quota_dict (''NVIDIA_V100_GPUS'' @ [newline]) (PyInt 2) (PyInt 0)]) =
   Some [(Some (PyStr ''nvidia-tesla-v100''), Some (PyStr ''2''))]"
  by code_simp








end
